theory Spec2Isabelle
  imports Main
begin

section \<open>TechDocs addon contexts (plugins/techdocs-addons/src/context.tsx)\<close>

subsection \<open>Values of the host language\<close>

text \<open>
  A promise may be rejected with any JavaScript value, and the providers test the
  rejection reason for truthiness (\<^verbatim>\<open>if (!loading && error)\<close>). The reasons are
  therefore modelled as JavaScript values: the primitives (numbers restricted to the
  integers and NaN, which is all that truthiness distinguishes) and objects, an
  \<^verbatim>\<open>Error\<close> instance being an object identified here by its message.
\<close>

datatype js_value =
    JSUndefined
  | JSNull
  | JSBoolean bool
  | JSNumber int
  | JSNaN
  | JSString string
  | JSObject string

text \<open>ToBoolean of ECMAScript: what an \<^verbatim>\<open>if\<close> or \<^verbatim>\<open>&&\<close> sees.\<close>

fun truthy :: "js_value \<Rightarrow> bool" where
  "truthy JSUndefined = False"
| "truthy JSNull = False"
| "truthy (JSBoolean b) = b"
| "truthy (JSNumber n) = (n \<noteq> 0)"
| "truthy JSNaN = False"
| "truthy (JSString s) = (s \<noteq> [])"
| "truthy (JSObject m) = True"

text \<open>\<^verbatim>\<open>CompoundEntityRef\<close> of the catalog model: the triple that names an entity.\<close>

record CompoundEntityRef =
  kind :: string
  name :: string
  namespace :: string

text \<open>
  How a promise settles. A promise that never settles is a call for which no settlement
  is ever delivered (see \<open>settle\<close> below).
\<close>

datatype 'v outcome = Fulfilled 'v | Rejected js_value

text \<open>
  The client behind \<^verbatim>\<open>techdocsApiRef\<close>, taken as a parameter: each of its two
  operations maps an entity reference to the way the returned promise settles.
\<close>

record ('m, 'em) TechDocsApi =
  getTechDocsMetadata :: "CompoundEntityRef \<Rightarrow> 'm outcome"
  getEntityMetadata :: "CompoundEntityRef \<Rightarrow> 'em outcome"

subsection \<open>The fetch primitive\<close>

text \<open>
  The object that \<^verbatim>\<open>useAsync\<close> returns and the providers destructure as
  \<^verbatim>\<open>{ value, loading, error }\<close>; the field \<^verbatim>\<open>value\<close> is \<open>val\<close> here. A field
  that is absent reads as undefined: \<open>None\<close> for the value, \<open>JSUndefined\<close> for the
  error.
\<close>

record 'v AsyncState =
  val :: "'v option"
  loading :: bool
  error :: js_value

text \<open>
  Modelled from the spec: \<^verbatim>\<open>useAsync\<close> is imported from the package react-use and is
  not part of the sources. The model follows the spec's contract of the primitive (one
  asynchronous fetch when first mounted, re-triggered only when the dependency list
  changes; the phases pending, success and failure) with the bookkeeping of the
  package: the state starts as \<^verbatim>\<open>{ loading: true }\<close>; the callback is memoised
  on the dependency list and an effect calls it after the first render and after every
  render that changed the list; a call takes the next call id, and when its promise
  settles the state is replaced by \<^verbatim>\<open>{ value, loading: false }\<close> or
  \<^verbatim>\<open>{ error, loading: false }\<close>, provided that the call is still the latest one.

  In the state of the hook, \<open>memoDeps\<close> is the dependency list the memoised callback
  was created with (\<open>None\<close> before the first render), and \<open>inFlight\<close> holds the calls
  whose promises have not settled yet, each with the way it will settle.
\<close>

record ('v, 'd) AsyncHook =
  state :: "'v AsyncState"
  lastCallId :: nat
  inFlight :: "(nat \<times> 'v outcome) list"
  memoDeps :: "'d list option"

text \<open>
  Modelled from the spec: the hook of \<^verbatim>\<open>useAsync\<close> before the first render; the
  phase is pending and no call has been made.
\<close>

definition initialAsyncHook :: "('v, 'd) AsyncHook" where
  "initialAsyncHook =
     \<lparr>state = \<lparr>val = None, loading = True, error = JSUndefined\<rparr>,
      lastCallId = 0, inFlight = [], memoDeps = None\<rparr>"

text \<open>
  Modelled from the spec: the memoised callback of \<^verbatim>\<open>useAsync\<close>. It starts the fetch
  \<open>fn\<close> under a fresh call id, and sets \<^verbatim>\<open>loading\<close> where it is not set.
\<close>

definition callback :: "'v outcome \<Rightarrow> ('v, 'd) AsyncHook \<Rightarrow> ('v, 'd) AsyncHook" where
  "callback fn h =
     (let callId = lastCallId h + 1 in
      h\<lparr>state := (if \<not> loading (state h) then (state h)\<lparr>loading := True\<rparr> else state h),
        lastCallId := callId,
        inFlight := inFlight h @ [(callId, fn)]\<rparr>)"

text \<open>
  Modelled from the spec: one render of a component that calls
  \<^verbatim>\<open>useAsync(fn, deps)\<close>. The result is the state the render sees, and the hook after
  the effects of that render have run: the fetch is started at the first render and at
  a render whose dependency list differs from the memoised one.
\<close>

definition useAsync ::
  "'v outcome \<Rightarrow> 'd list \<Rightarrow> ('v, 'd) AsyncHook \<Rightarrow> 'v AsyncState \<times> ('v, 'd) AsyncHook" where
  "useAsync fn deps h =
     (state h,
      if memoDeps h = Some deps then h
      else callback fn (h\<lparr>memoDeps := Some deps\<rparr>))"

text \<open>
  Modelled from the spec: the states that the resolution and the rejection handler of a
  call write (the phases success and failure).
\<close>

fun settled :: "'v outcome \<Rightarrow> 'v AsyncState" where
  "settled (Fulfilled v) = \<lparr>val = Some v, loading = False, error = JSUndefined\<rparr>"
| "settled (Rejected e) = \<lparr>val = None, loading = False, error = e\<rparr>"

text \<open>
  Modelled from the spec: the promise of call \<open>callId\<close> settles. A promise settles
  once, so a call that is not in flight changes nothing; and the handlers write the state
  for the latest call only.
\<close>

definition settle :: "nat \<Rightarrow> ('v, 'd) AsyncHook \<Rightarrow> ('v, 'd) AsyncHook" where
  "settle callId h =
     (case map_of (inFlight h) callId of
        None \<Rightarrow> h
      | Some fn \<Rightarrow>
          (let h' = h\<lparr>inFlight := filter (\<lambda>c. fst c \<noteq> callId) (inFlight h)\<rparr> in
           if callId = lastCallId h then h'\<lparr>state := settled fn\<rparr> else h'))"

subsection \<open>The reader page value\<close>

text \<open>
  The shadow root, as far as this module uses it: its \<^verbatim>\<open>querySelectorAll\<close>, taken
  as a parameter. The browser answers a selector with the matching elements in document
  order, or throws a \<^verbatim>\<open>SyntaxError\<close> when the string is not a valid selector.
\<close>

datatype DOMException = SyntaxError

record 'e ShadowRoot =
  querySelectorAll :: "string \<Rightarrow> DOMException + 'e list"

text \<open>
  \<^verbatim>\<open>SetStateAction<S>\<close>: a new state, or a function from the previous state to the
  new one.
\<close>

datatype 'a SetStateAction = NewState 'a | Updater "'a \<Rightarrow> 'a"

fun applyAction :: "'a SetStateAction \<Rightarrow> 'a \<Rightarrow> 'a" where
  "applyAction (NewState x) prev = x"
| "applyAction (Updater f) prev = f prev"

text \<open>
  The three \<^verbatim>\<open>useState\<close> cells of a mounted \<^verbatim>\<open>TechDocsReaderPageProvider\<close>. A
  \<^verbatim>\<open>Dispatch\<close> is a request to update a cell: it maps the cells before the next render
  to the cells that render reads.
\<close>

record 'e ReaderPageState =
  titleState :: string
  subtitleState :: string
  shadowRootState :: "'e ShadowRoot option"

type_synonym ('a, 'e) Dispatch = "'a \<Rightarrow> 'e ReaderPageState \<Rightarrow> 'e ReaderPageState"

record 'e TechDocsReaderPageValue =
  entityName :: CompoundEntityRef
  shadowRoot :: "'e ShadowRoot option"
  setShadowRoot :: "('e ShadowRoot option SetStateAction, 'e) Dispatch"
  title :: string
  setTitle :: "(string SetStateAction, 'e) Dispatch"
  subtitle :: string
  setSubtitle :: "(string SetStateAction, 'e) Dispatch"

text \<open>The default: its setters do nothing, and it has no \<^verbatim>\<open>shadowRoot\<close> field.\<close>

definition defaultTechDocsReaderPageValue :: "'e TechDocsReaderPageValue" where
  "defaultTechDocsReaderPageValue =
     \<lparr>entityName = \<lparr>kind = [], name = [], namespace = []\<rparr>,
      shadowRoot = None,
      setShadowRoot = (\<lambda>a s. s),
      title = [],
      setTitle = (\<lambda>a s. s),
      subtitle = [],
      setSubtitle = (\<lambda>a s. s)\<rparr>"

subsection \<open>What a component renders\<close>

text \<open>
  The element a provider returns: the application shell's not-found page, or the
  \<^verbatim>\<open>Provider\<close> of one of the three contexts around the children. The children are
  opaque.
\<close>

datatype ('m, 'em, 'e, 'c) element =
    NotFoundErrorPage
  | TechDocsMetadataContext_Provider "'m option" 'c
  | TechDocsEntityContext_Provider "'em option" 'c
  | TechDocsReaderPageContext_Provider "'e TechDocsReaderPageValue" 'c

text \<open>
  What a component finds around it: for each context the value of the nearest enclosing
  provider, \<open>None\<close> where there is no provider of that context.
\<close>

record ('m, 'em, 'e) contexts =
  TechDocsMetadataContext :: "'m option option"
  TechDocsEntityContext :: "'em option option"
  TechDocsReaderPageContext :: "'e TechDocsReaderPageValue option"

definition noProviders :: "('m, 'em, 'e) contexts" where
  "noProviders =
     \<lparr>TechDocsMetadataContext = None, TechDocsEntityContext = None,
      TechDocsReaderPageContext = None\<rparr>"

text \<open>
  The children an element renders and the contexts they find; \<open>None\<close> when the element
  renders no children.
\<close>

fun renderChildren ::
  "('m, 'em, 'e, 'c) element \<Rightarrow> ('m, 'em, 'e) contexts \<Rightarrow> ('c \<times> ('m, 'em, 'e) contexts) option" where
  "renderChildren NotFoundErrorPage env = None"
| "renderChildren (TechDocsMetadataContext_Provider v c) env =
     Some (c, env\<lparr>TechDocsMetadataContext := Some v\<rparr>)"
| "renderChildren (TechDocsEntityContext_Provider v c) env =
     Some (c, env\<lparr>TechDocsEntityContext := Some v\<rparr>)"
| "renderChildren (TechDocsReaderPageContext_Provider v c) env =
     Some (c, env\<lparr>TechDocsReaderPageContext := Some v\<rparr>)"

text \<open>
  \<^verbatim>\<open>useContext\<close>: the value of the nearest provider, and the default the context was
  created with where there is none.
\<close>

definition useContext :: "'a \<Rightarrow> 'a option \<Rightarrow> 'a" where
  "useContext defaultValue provided = (case provided of None \<Rightarrow> defaultValue | Some v \<Rightarrow> v)"

text \<open>A hook called by a descendant of the element that a provider rendered.\<close>

definition inChildren ::
  "('m, 'em, 'e, 'c) element \<Rightarrow> ('m, 'em, 'e) contexts \<Rightarrow> (('m, 'em, 'e) contexts \<Rightarrow> 'r) \<Rightarrow> 'r option" where
  "inChildren el env hook = map_option (\<lambda>(c, env'). hook env') (renderChildren el env)"

subsection \<open>TechDocsMetadataProvider and TechDocsEntityProvider\<close>

definition TechDocsMetadataProvider ::
  "('m, 'em) TechDocsApi \<Rightarrow> CompoundEntityRef \<Rightarrow> 'c \<Rightarrow> ('m, CompoundEntityRef) AsyncHook
     \<Rightarrow> ('m, 'em, 'e, 'c) element \<times> ('m, CompoundEntityRef) AsyncHook" where
  "TechDocsMetadataProvider techdocsApi entityRef children h =
     (let (st, h') = useAsync (getTechDocsMetadata techdocsApi entityRef) [] h in
      if \<not> loading st \<and> truthy (error st) then (NotFoundErrorPage, h')
      else (TechDocsMetadataContext_Provider (val st) children, h'))"

definition useMetadata :: "('m, 'em, 'e) contexts \<Rightarrow> 'm option" where
  "useMetadata env = useContext None (TechDocsMetadataContext env)"

definition TechDocsEntityProvider ::
  "('m, 'em) TechDocsApi \<Rightarrow> CompoundEntityRef \<Rightarrow> 'c \<Rightarrow> ('em, CompoundEntityRef) AsyncHook
     \<Rightarrow> ('m, 'em, 'e, 'c) element \<times> ('em, CompoundEntityRef) AsyncHook" where
  "TechDocsEntityProvider techdocsApi entityRef children h =
     (let (st, h') = useAsync (getEntityMetadata techdocsApi entityRef) [] h in
      if \<not> loading st \<and> truthy (error st) then (NotFoundErrorPage, h')
      else (TechDocsEntityContext_Provider (val st) children, h'))"

definition useEntityMetadata :: "('m, 'em, 'e) contexts \<Rightarrow> 'em option" where
  "useEntityMetadata env = useContext None (TechDocsEntityContext env)"

text \<open>
  The life of a mounted provider: it is mounted with an entity reference (its first
  render, from the initial hook); afterwards its parent renders it again, with the same
  or another reference, and the promises of its calls settle.
\<close>

datatype event = Rerender CompoundEntityRef | Settle nat

definition metadataProviderMount ::
  "('m, 'em) TechDocsApi \<Rightarrow> CompoundEntityRef \<Rightarrow> ('m, CompoundEntityRef) AsyncHook" where
  "metadataProviderMount techdocsApi entityRef =
     snd (TechDocsMetadataProvider techdocsApi entityRef () initialAsyncHook
            :: ('m, 'em, unit, unit) element \<times> ('m, CompoundEntityRef) AsyncHook)"

fun metadataProviderStep ::
  "('m, 'em) TechDocsApi \<Rightarrow> ('m, CompoundEntityRef) AsyncHook \<Rightarrow> event
     \<Rightarrow> ('m, CompoundEntityRef) AsyncHook" where
  "metadataProviderStep techdocsApi h (Rerender entityRef) =
     snd (TechDocsMetadataProvider techdocsApi entityRef () h
            :: ('m, 'em, unit, unit) element \<times> ('m, CompoundEntityRef) AsyncHook)"
| "metadataProviderStep techdocsApi h (Settle callId) = settle callId h"

definition metadataProviderRun ::
  "('m, 'em) TechDocsApi \<Rightarrow> CompoundEntityRef \<Rightarrow> event list \<Rightarrow> ('m, CompoundEntityRef) AsyncHook" where
  "metadataProviderRun techdocsApi entityRef evs =
     foldl (metadataProviderStep techdocsApi) (metadataProviderMount techdocsApi entityRef) evs"

definition entityProviderMount ::
  "('m, 'em) TechDocsApi \<Rightarrow> CompoundEntityRef \<Rightarrow> ('em, CompoundEntityRef) AsyncHook" where
  "entityProviderMount techdocsApi entityRef =
     snd (TechDocsEntityProvider techdocsApi entityRef () initialAsyncHook
            :: ('m, 'em, unit, unit) element \<times> ('em, CompoundEntityRef) AsyncHook)"

fun entityProviderStep ::
  "('m, 'em) TechDocsApi \<Rightarrow> ('em, CompoundEntityRef) AsyncHook \<Rightarrow> event
     \<Rightarrow> ('em, CompoundEntityRef) AsyncHook" where
  "entityProviderStep techdocsApi h (Rerender entityRef) =
     snd (TechDocsEntityProvider techdocsApi entityRef () h
            :: ('m, 'em, unit, unit) element \<times> ('em, CompoundEntityRef) AsyncHook)"
| "entityProviderStep techdocsApi h (Settle callId) = settle callId h"

definition entityProviderRun ::
  "('m, 'em) TechDocsApi \<Rightarrow> CompoundEntityRef \<Rightarrow> event list \<Rightarrow> ('em, CompoundEntityRef) AsyncHook" where
  "entityProviderRun techdocsApi entityRef evs =
     foldl (entityProviderStep techdocsApi) (entityProviderMount techdocsApi entityRef) evs"

text \<open>
  The phase of the fetch, read off the state of the hook: pending while it loads, and
  afterwards success or failure by the handler that wrote the state (the rejection
  handler leaves the value undefined, the resolution handler stores the metadata).
\<close>

datatype phase = Pending | Success | Failure

definition phaseOf :: "'v AsyncState \<Rightarrow> phase" where
  "phaseOf st = (if loading st then Pending else if val st = None then Failure else Success)"

subsection \<open>TechDocsReaderPageProvider and the hooks over it\<close>

definition useTechDocsReaderPage :: "('m, 'em, 'e) contexts \<Rightarrow> 'e TechDocsReaderPageValue" where
  "useTechDocsReaderPage env =
     useContext defaultTechDocsReaderPageValue (TechDocsReaderPageContext env)"

text \<open>The cells as the three \<^verbatim>\<open>useState\<close> calls initialise them at the first render.\<close>

definition initialReaderPageState :: "'e ReaderPageState" where
  "initialReaderPageState =
     \<lparr>titleState = title (defaultTechDocsReaderPageValue :: 'e TechDocsReaderPageValue),
      subtitleState = subtitle (defaultTechDocsReaderPageValue :: 'e TechDocsReaderPageValue),
      shadowRootState = shadowRoot (defaultTechDocsReaderPageValue :: 'e TechDocsReaderPageValue)\<rparr>"

definition TechDocsReaderPageProvider ::
  "CompoundEntityRef \<Rightarrow> 'c \<Rightarrow> 'e ReaderPageState \<Rightarrow> ('m, 'em, 'e, 'c) element" where
  "TechDocsReaderPageProvider =
     (\<lambda>entityName children cells.
        let (title, setTitle) =
              (titleState cells, \<lambda>a s. s\<lparr>titleState := applyAction a (titleState s)\<rparr>);
            (subtitle, setSubtitle) =
              (subtitleState cells, \<lambda>a s. s\<lparr>subtitleState := applyAction a (subtitleState s)\<rparr>);
            (shadowRoot, setShadowRoot) =
              (shadowRootState cells,
               \<lambda>a s. s\<lparr>shadowRootState := applyAction a (shadowRootState s)\<rparr>);
            value =
              \<lparr>entityName = entityName,
               shadowRoot = shadowRoot,
               setShadowRoot = setShadowRoot,
               title = title,
               setTitle = setTitle,
               subtitle = subtitle,
               setSubtitle = setSubtitle\<rparr>
        in TechDocsReaderPageContext_Provider value children)"

definition useShadowRoot :: "('m, 'em, 'e) contexts \<Rightarrow> 'e ShadowRoot option" where
  "useShadowRoot env = shadowRoot (useTechDocsReaderPage env)"

text \<open>
  \<^verbatim>\<open>Array.prototype.map\<close> with a callback that may throw: the first exception ends
  the traversal and is the result.
\<close>

fun array_map :: "('a \<Rightarrow> 'x + 'b) \<Rightarrow> 'a list \<Rightarrow> 'x + 'b list" where
  "array_map f [] = Inr []"
| "array_map f (x # xs) =
     (case f x of
        Inl e \<Rightarrow> Inl e
      | Inr y \<Rightarrow> (case array_map f xs of Inl e \<Rightarrow> Inl e | Inr ys \<Rightarrow> Inr (y # ys)))"

definition useShadowRootElements ::
  "string list \<Rightarrow> ('m, 'em, 'e) contexts \<Rightarrow> DOMException + 'e list" where
  "useShadowRootElements selectors env =
     (case useShadowRoot env of
        None \<Rightarrow> Inr []
      | Some root \<Rightarrow>
          (case array_map (\<lambda>selector. querySelectorAll root selector) selectors of
             Inl e \<Rightarrow> Inl e
           | Inr nodeLists \<Rightarrow>
               Inr (concat (map (\<lambda>nodeList. nodeList)
                      (filter (\<lambda>nodeList. length nodeList \<noteq> 0) nodeLists)))))"

text \<open>
  What a descendant can ask of the provider: to call one of the three setters of the
  value it read from the context.
\<close>

datatype 'e operation =
    SetTitle "string SetStateAction"
  | SetSubtitle "string SetStateAction"
  | SetShadowRoot "'e ShadowRoot option SetStateAction"

fun dispatch ::
  "'e TechDocsReaderPageValue \<Rightarrow> 'e operation \<Rightarrow> 'e ReaderPageState \<Rightarrow> 'e ReaderPageState" where
  "dispatch v (SetTitle a) = setTitle v a"
| "dispatch v (SetSubtitle a) = setSubtitle v a"
| "dispatch v (SetShadowRoot a) = setShadowRoot v a"

text \<open>
  The value a descendant of a rendered \<^verbatim>\<open>TechDocsReaderPageProvider\<close> reads with
  \<^verbatim>\<open>useTechDocsReaderPage\<close>, and one step of the provider's life: a descendant
  reads the value and calls one of its setters.
\<close>

definition readerPageValue ::
  "CompoundEntityRef \<Rightarrow> 'c \<Rightarrow> 'e ReaderPageState \<Rightarrow> ('m, 'em, 'e) contexts
     \<Rightarrow> 'e TechDocsReaderPageValue option" where
  "readerPageValue entityRef children cells env =
     inChildren (TechDocsReaderPageProvider entityRef children cells) env useTechDocsReaderPage"

definition readerPageStep ::
  "CompoundEntityRef \<Rightarrow> 'c \<Rightarrow> ('m, 'em, 'e) contexts \<Rightarrow> 'e ReaderPageState \<Rightarrow> 'e operation
     \<Rightarrow> 'e ReaderPageState" where
  "readerPageStep entityRef children env cells op =
     (case readerPageValue entityRef children cells env of
        None \<Rightarrow> cells
      | Some v \<Rightarrow> dispatch v op cells)"

text \<open>
  The life of a mounted \<^verbatim>\<open>TechDocsReaderPageProvider\<close>: its parent renders it again,
  with the same or another entity reference, and descendants call the setters. A
  mounted provider is the reference of its latest render together with its cells; the
  cells are initialised at the mount and kept across renders.
\<close>

datatype 'e readerPageEvent = RenderWith CompoundEntityRef | Call "'e operation"

fun readerPageLifeStep ::
  "'c \<Rightarrow> ('m, 'em, 'e) contexts \<Rightarrow> CompoundEntityRef \<times> 'e ReaderPageState \<Rightarrow> 'e readerPageEvent
     \<Rightarrow> CompoundEntityRef \<times> 'e ReaderPageState" where
  "readerPageLifeStep children env (entityRef, cells) (RenderWith entityRef') = (entityRef', cells)"
| "readerPageLifeStep children env (entityRef, cells) (Call op) =
     (entityRef, readerPageStep entityRef children env cells op)"

definition readerPageLife ::
  "'c \<Rightarrow> ('m, 'em, 'e) contexts \<Rightarrow> CompoundEntityRef \<Rightarrow> 'e readerPageEvent list
     \<Rightarrow> CompoundEntityRef \<times> 'e ReaderPageState" where
  "readerPageLife children env entityRef evs =
     foldl (readerPageLifeStep children env) (entityRef, initialReaderPageState) evs"

fun readerPageRead ::
  "'c \<Rightarrow> ('m, 'em, 'e) contexts \<Rightarrow> CompoundEntityRef \<times> 'e ReaderPageState
     \<Rightarrow> 'e TechDocsReaderPageValue option" where
  "readerPageRead children env (entityRef, cells) = readerPageValue entityRef children cells env"

text \<open>The reference of the latest render, read off the events alone.\<close>

fun latestRef :: "CompoundEntityRef \<Rightarrow> 'e readerPageEvent list \<Rightarrow> CompoundEntityRef" where
  "latestRef entityRef [] = entityRef"
| "latestRef entityRef (RenderWith entityRef' # evs) = latestRef entityRef' evs"
| "latestRef entityRef (Call op # evs) = latestRef entityRef evs"

subsection \<open>Notions used to state the properties\<close>

text \<open>
  Exchanging the two metadata contexts in an element, where both carry the same type
  of metadata.
\<close>

fun swapContext :: "('v, 'v, 'e, 'c) element \<Rightarrow> ('v, 'v, 'e, 'c) element" where
  "swapContext NotFoundErrorPage = NotFoundErrorPage"
| "swapContext (TechDocsMetadataContext_Provider v c) = TechDocsEntityContext_Provider v c"
| "swapContext (TechDocsEntityContext_Provider v c) = TechDocsMetadataContext_Provider v c"
| "swapContext (TechDocsReaderPageContext_Provider v c) = TechDocsReaderPageContext_Provider v c"

text \<open>
  The hooks a provider mounted with the fetch \<open>fn\<close> can be in: the callback is memoised
  on the empty dependency list and has been called once; the call is either in flight,
  with the state still the initial one, or (\<open>done\<close>) it has settled and its handler
  has written the state.
\<close>

definition mountedWith :: "'v outcome \<Rightarrow> bool \<Rightarrow> ('v, 'd) AsyncHook \<Rightarrow> bool" where
  "mountedWith fn done h =
     (memoDeps h = Some [] \<and> lastCallId h = 1 \<and>
      (if done then inFlight h = [] \<and> state h = settled fn
       else inFlight h = [(1, fn)] \<and>
            state h = \<lparr>val = None, loading = True, error = JSUndefined\<rparr>))"

subsection \<open>Example inputs\<close>

definition exampleRef :: CompoundEntityRef where
  "exampleRef = \<lparr>kind = ''component'', name = ''docs'', namespace = ''default''\<rparr>"

definition otherRef :: CompoundEntityRef where
  "otherRef = \<lparr>kind = ''api'', name = ''petstore'', namespace = ''default''\<rparr>"

text \<open>A client whose promises are rejected with \<open>reason\<close>, and one whose promises resolve.\<close>

definition rejectingApi :: "js_value \<Rightarrow> (string, string) TechDocsApi" where
  "rejectingApi reason =
     \<lparr>getTechDocsMetadata = (\<lambda>entityRef. Rejected reason),
      getEntityMetadata = (\<lambda>entityRef. Rejected reason)\<rparr>"

definition resolvingApi :: "(string, string) TechDocsApi" where
  "resolvingApi =
     \<lparr>getTechDocsMetadata = (\<lambda>entityRef. Fulfilled (''site:'' @ name entityRef)),
      getEntityMetadata = (\<lambda>entityRef. Fulfilled (''entity:'' @ name entityRef))\<rparr>"

text \<open>
  A shadow root with four elements, numbered in document order: \<^verbatim>\<open>a\<close> matches two of
  them, \<^verbatim>\<open>b\<close> none, \<^verbatim>\<open>*\<close> all; any other string is rejected as a selector.
\<close>

definition exampleRoot :: "nat ShadowRoot" where
  "exampleRoot =
     \<lparr>querySelectorAll = (\<lambda>selector.
        if selector = ''a'' then Inr [1, 2]
        else if selector = ''b'' then Inr []
        else if selector = ''*'' then Inr [0, 1, 2, 3]
        else Inl SyntaxError)\<rparr>"

definition exampleMatches :: "string \<Rightarrow> nat list" where
  "exampleMatches selector =
     (if selector = ''a'' then [1, 2] else if selector = ''*'' then [0, 1, 2, 3] else [])"

definition exampleContexts :: "(unit, unit, nat) contexts" where
  "exampleContexts =
     noProviders\<lparr>TechDocsReaderPageContext :=
       Some (defaultTechDocsReaderPageValue\<lparr>shadowRoot := Some exampleRoot\<rparr>)\<rparr>"

section \<open>Properties\<close>

subsection \<open>The fetch of a mounted provider\<close>

lemma metadataProvider_hook:
  "snd (TechDocsMetadataProvider api e c h) = snd (useAsync (getTechDocsMetadata api e) [] h)"
  by (simp add: TechDocsMetadataProvider_def split: prod.splits)

lemma entityProvider_hook:
  "snd (TechDocsEntityProvider api e c h) = snd (useAsync (getEntityMetadata api e) [] h)"
  by (simp add: TechDocsEntityProvider_def split: prod.splits)

lemma useAsync_mount:
  "mountedWith fn False (snd (useAsync fn [] initialAsyncHook))"
  by (simp add: mountedWith_def useAsync_def initialAsyncHook_def callback_def)

text \<open>With the empty dependency list a later render starts no call, whatever its fetch.\<close>

lemma useAsync_rerender:
  "mountedWith fn d h \<Longrightarrow> snd (useAsync fn' [] h) = h"
  by (simp add: mountedWith_def useAsync_def)

lemma settle_mounted:
  "mountedWith fn d h \<Longrightarrow> mountedWith fn (d \<or> Settle k = Settle 1) (settle k h)"
  by (auto simp: mountedWith_def settle_def split: option.splits if_splits)

lemma metadataProviderStep_mounted:
  "mountedWith fn d h \<Longrightarrow> mountedWith fn (d \<or> ev = Settle 1) (metadataProviderStep api h ev)"
proof (cases ev)
  case (Rerender e)
  assume "mountedWith fn d h"
  with Rerender show ?thesis
    by (simp add: metadataProvider_hook useAsync_rerender)
next
  case (Settle k)
  assume "mountedWith fn d h"
  from settle_mounted [OF this, of k] Settle show ?thesis
    by simp
qed

lemma entityProviderStep_mounted:
  "mountedWith fn d h \<Longrightarrow> mountedWith fn (d \<or> ev = Settle 1) (entityProviderStep api h ev)"
proof (cases ev)
  case (Rerender e)
  assume "mountedWith fn d h"
  with Rerender show ?thesis
    by (simp add: entityProvider_hook useAsync_rerender)
next
  case (Settle k)
  assume "mountedWith fn d h"
  from settle_mounted [OF this, of k] Settle show ?thesis
    by simp
qed

text \<open>
  Whatever happens to a mounted provider, its one call is the call of the mount, for the
  reference of the mount, and it has settled exactly when its settlement was delivered.
\<close>

lemma metadataProviderRun_mounted:
  "mountedWith (getTechDocsMetadata api e0) (Settle 1 \<in> set evs) (metadataProviderRun api e0 evs)"
proof (induction evs rule: rev_induct)
  case Nil
  show ?case
    by (simp add: metadataProviderRun_def metadataProviderMount_def metadataProvider_hook
        useAsync_mount)
next
  case (snoc ev evs)
  have "metadataProviderRun api e0 (evs @ [ev]) =
        metadataProviderStep api (metadataProviderRun api e0 evs) ev"
    by (simp add: metadataProviderRun_def)
  with metadataProviderStep_mounted [OF snoc.IH, of ev api] show ?case
    by (auto simp: disj_commute eq_commute [of ev])
qed

lemma entityProviderRun_mounted:
  "mountedWith (getEntityMetadata api e0) (Settle 1 \<in> set evs) (entityProviderRun api e0 evs)"
proof (induction evs rule: rev_induct)
  case Nil
  show ?case
    by (simp add: entityProviderRun_def entityProviderMount_def entityProvider_hook
        useAsync_mount)
next
  case (snoc ev evs)
  have "entityProviderRun api e0 (evs @ [ev]) =
        entityProviderStep api (entityProviderRun api e0 evs) ev"
    by (simp add: entityProviderRun_def)
  with entityProviderStep_mounted [OF snoc.IH, of ev api] show ?case
    by (auto simp: disj_commute eq_commute [of ev])
qed

subsection \<open>What the providers render\<close>

lemma metadataProvider_first_render:
  "fst (TechDocsMetadataProvider api e c initialAsyncHook) = TechDocsMetadataContext_Provider None c"
  by (simp add: TechDocsMetadataProvider_def useAsync_def initialAsyncHook_def)

lemma metadataProvider_pending:
  assumes "mountedWith fn False h"
  shows "fst (TechDocsMetadataProvider api e c h) = TechDocsMetadataContext_Provider None c"
  using assms by (simp add: mountedWith_def TechDocsMetadataProvider_def useAsync_def)

lemma metadataProvider_settled:
  assumes "mountedWith fn True h"
  shows "fst (TechDocsMetadataProvider api e c h) =
           (case fn of Fulfilled v \<Rightarrow> TechDocsMetadataContext_Provider (Some v) c
            | Rejected r \<Rightarrow> if truthy r then NotFoundErrorPage
                             else TechDocsMetadataContext_Provider None c)"
  using assms
  by (simp add: mountedWith_def TechDocsMetadataProvider_def useAsync_def split: outcome.splits)

lemma entityProvider_settled:
  assumes "mountedWith fn True h"
  shows "fst (TechDocsEntityProvider api e c h) =
           (case fn of Fulfilled v \<Rightarrow> TechDocsEntityContext_Provider (Some v) c
            | Rejected r \<Rightarrow> if truthy r then NotFoundErrorPage
                             else TechDocsEntityContext_Provider None c)"
  using assms
  by (simp add: mountedWith_def TechDocsEntityProvider_def useAsync_def split: outcome.splits)

lemma useMetadata_inChildren:
  "inChildren (TechDocsMetadataContext_Provider x c) env useMetadata = Some x"
  by (simp add: inChildren_def useMetadata_def useContext_def)

subsection \<open>Failure of the fetch\<close>

text \<open>
  Claim C1, as amended. If the fetch of a mounted \<^verbatim>\<open>TechDocsMetadataProvider\<close> (or
  \<^verbatim>\<open>TechDocsEntityProvider\<close>) has been rejected with a truthy reason, as every
  \<^verbatim>\<open>Error\<close> object is, then every later render of the provider, with whatever
  reference and children, is the application shell's not-found page, and no children
  are rendered.
\<close>

theorem provider_truthy_rejection_renders_not_found:
  assumes "truthy reason" and "Settle 1 \<in> set evs"
  shows "(getTechDocsMetadata api e0 = Rejected reason \<longrightarrow>
            fst (TechDocsMetadataProvider api e c (metadataProviderRun api e0 evs)) = NotFoundErrorPage \<and>
            renderChildren (fst (TechDocsMetadataProvider api e c (metadataProviderRun api e0 evs))) env = None) \<and>
         (getEntityMetadata api e0 = Rejected reason \<longrightarrow>
            fst (TechDocsEntityProvider api e c (entityProviderRun api e0 evs)) = NotFoundErrorPage \<and>
            renderChildren (fst (TechDocsEntityProvider api e c (entityProviderRun api e0 evs))) env = None)"
proof -
  have m: "mountedWith (getTechDocsMetadata api e0) True (metadataProviderRun api e0 evs)"
    using metadataProviderRun_mounted [of api e0 evs] assms(2) by simp
  have n: "mountedWith (getEntityMetadata api e0) True (entityProviderRun api e0 evs)"
    using entityProviderRun_mounted [of api e0 evs] assms(2) by simp
  note r1 = metadataProvider_settled [OF m, of api e c] and r2 = entityProvider_settled [OF n, of api e c]
  show ?thesis
  proof (intro conjI impI)
    assume "getTechDocsMetadata api e0 = Rejected reason"
    with r1 assms(1)
    show a: "fst (TechDocsMetadataProvider api e c (metadataProviderRun api e0 evs)) = NotFoundErrorPage"
      by simp
    assume "getTechDocsMetadata api e0 = Rejected reason"
    show "renderChildren (fst (TechDocsMetadataProvider api e c (metadataProviderRun api e0 evs))) env = None"
      by (simp add: a)
  next
    assume "getEntityMetadata api e0 = Rejected reason"
    with r2 assms(1)
    show a: "fst (TechDocsEntityProvider api e c (entityProviderRun api e0 evs)) = NotFoundErrorPage"
      by simp
    assume "getEntityMetadata api e0 = Rejected reason"
    show "renderChildren (fst (TechDocsEntityProvider api e c (entityProviderRun api e0 evs))) env = None"
      by (simp add: a)
  qed
qed

text \<open>
  The fetch for \<open>exampleRef\<close> is rejected with an error object; the provider, rendered
  again for \<open>otherRef\<close> in the meantime, shows the not-found page.
\<close>

theorem provider_truthy_rejection_renders_not_found_witness:
  "truthy (JSObject ''NotFoundError'') \<and> Settle 1 \<in> set [Rerender otherRef, Settle 1] \<and>
   getTechDocsMetadata (rejectingApi (JSObject ''NotFoundError'')) exampleRef
     = Rejected (JSObject ''NotFoundError'') \<and>
   fst (TechDocsMetadataProvider (rejectingApi (JSObject ''NotFoundError'')) otherRef ()
          (metadataProviderRun (rejectingApi (JSObject ''NotFoundError'')) exampleRef
             [Rerender otherRef, Settle 1]))
     = (NotFoundErrorPage :: (string, string, unit, unit) element)"
proof -
  have t: "truthy (JSObject ''NotFoundError'')" and s: "Settle 1 \<in> set [Rerender otherRef, Settle 1]"
    and r: "getTechDocsMetadata (rejectingApi (JSObject ''NotFoundError'')) exampleRef
              = Rejected (JSObject ''NotFoundError'')"
    by (simp_all add: rejectingApi_def)
  from provider_truthy_rejection_renders_not_found
    [OF t s, of "rejectingApi (JSObject ''NotFoundError'')" exampleRef otherRef "()"
      "noProviders :: (string, string, unit) contexts"] r
  have "fst (TechDocsMetadataProvider (rejectingApi (JSObject ''NotFoundError'')) otherRef ()
          (metadataProviderRun (rejectingApi (JSObject ''NotFoundError'')) exampleRef
             [Rerender otherRef, Settle 1]))
     = (NotFoundErrorPage :: (string, string, unit, unit) element)"
    by blast
  with t s r show ?thesis by blast
qed

text \<open>
  Claim C1 as the spec states it, for any error value, fails: a fetch rejected with
  \<^verbatim>\<open>undefined\<close> (\<^verbatim>\<open>Promise.reject()\<close>) leaves \<^verbatim>\<open>error\<close> falsy, and the provider
  renders its children with an undefined context value.
\<close>

theorem provider_falsy_rejection_renders_children:
  "fst (TechDocsMetadataProvider (rejectingApi JSUndefined) exampleRef ()
          (metadataProviderRun (rejectingApi JSUndefined) exampleRef [Settle 1]))
     = (TechDocsMetadataContext_Provider None () :: (string, string, unit, unit) element) \<and>
   renderChildren
     (fst (TechDocsMetadataProvider (rejectingApi JSUndefined) exampleRef ()
          (metadataProviderRun (rejectingApi JSUndefined) exampleRef [Settle 1]))) noProviders
     = Some ((), (noProviders :: (string, string, unit) contexts)\<lparr>TechDocsMetadataContext := Some None\<rparr>)"
  by (simp add: metadataProviderRun_def metadataProviderMount_def TechDocsMetadataProvider_def
      useAsync_def initialAsyncHook_def callback_def settle_def rejectingApi_def)

subsection \<open>Pending and success\<close>

text \<open>
  Claim C2. For every entity reference \<open>e0\<close> the provider is mounted with: its first
  render, and every render before the fetch has settled, is the metadata context's
  provider with an undefined value around the children, and \<^verbatim>\<open>useMetadata\<close> in the
  children returns undefined; once the fetch has resolved with \<open>v\<close>, every render
  provides \<open>v\<close>, and \<^verbatim>\<open>useMetadata\<close> returns \<open>v\<close>. In general
  \<^verbatim>\<open>useMetadata\<close> returns exactly the value of the enclosing provider.
\<close>

theorem metadataProvider_pending_then_resolved:
  "inChildren (fst (TechDocsMetadataProvider api e0 c initialAsyncHook)) env useMetadata = Some None \<and>
   (Settle 1 \<notin> set evs \<longrightarrow>
      fst (TechDocsMetadataProvider api e c (metadataProviderRun api e0 evs))
        = TechDocsMetadataContext_Provider None c \<and>
      inChildren (fst (TechDocsMetadataProvider api e c (metadataProviderRun api e0 evs))) env
        useMetadata = Some None) \<and>
   (Settle 1 \<in> set evs \<and> getTechDocsMetadata api e0 = Fulfilled v \<longrightarrow>
      fst (TechDocsMetadataProvider api e c (metadataProviderRun api e0 evs))
        = TechDocsMetadataContext_Provider (Some v) c \<and>
      inChildren (fst (TechDocsMetadataProvider api e c (metadataProviderRun api e0 evs))) env
        useMetadata = Some (Some v)) \<and>
   inChildren (TechDocsMetadataContext_Provider x c) env useMetadata = Some x"
proof (intro conjI impI)
  show "inChildren (fst (TechDocsMetadataProvider api e0 c initialAsyncHook)) env useMetadata
          = Some None"
    by (simp add: metadataProvider_first_render useMetadata_inChildren)
next
  assume "Settle 1 \<notin> set evs"
  with metadataProviderRun_mounted [of api e0 evs]
  have "mountedWith (getTechDocsMetadata api e0) False (metadataProviderRun api e0 evs)"
    by simp
  from metadataProvider_pending [OF this, of api e c]
  show p: "fst (TechDocsMetadataProvider api e c (metadataProviderRun api e0 evs))
        = TechDocsMetadataContext_Provider None c" .
  show "inChildren (fst (TechDocsMetadataProvider api e c (metadataProviderRun api e0 evs))) env
        useMetadata = Some None"
    by (simp add: p useMetadata_inChildren)
next
  assume a: "Settle 1 \<in> set evs \<and> getTechDocsMetadata api e0 = Fulfilled v"
  with metadataProviderRun_mounted [of api e0 evs]
  have "mountedWith (getTechDocsMetadata api e0) True (metadataProviderRun api e0 evs)"
    by simp
  from metadataProvider_settled [OF this, of api e c] a
  show p: "fst (TechDocsMetadataProvider api e c (metadataProviderRun api e0 evs))
        = TechDocsMetadataContext_Provider (Some v) c"
    by simp
  show "inChildren (fst (TechDocsMetadataProvider api e c (metadataProviderRun api e0 evs))) env
        useMetadata = Some (Some v)"
    by (simp add: p useMetadata_inChildren)
next
  show "inChildren (TechDocsMetadataContext_Provider x c) env useMetadata = Some x"
    by (rule useMetadata_inChildren)
qed

text \<open>
  Mounted for \<open>exampleRef\<close> and rendered again for \<open>otherRef\<close>: undefined before the
  settlement, the metadata of \<open>exampleRef\<close> after it.
\<close>

theorem metadataProvider_pending_then_resolved_witness:
  "inChildren
     (fst (TechDocsMetadataProvider resolvingApi otherRef ()
        (metadataProviderRun resolvingApi exampleRef [Rerender otherRef])))
     (noProviders :: (string, string, unit) contexts) useMetadata = Some None \<and>
   inChildren
     (fst (TechDocsMetadataProvider resolvingApi otherRef ()
        (metadataProviderRun resolvingApi exampleRef [Rerender otherRef, Settle 1])))
     (noProviders :: (string, string, unit) contexts) useMetadata = Some (Some ''site:docs'')"
proof -
  have a: "Settle 1 \<notin> set [Rerender otherRef]" by simp
  have b: "Settle 1 \<in> set [Rerender otherRef, Settle 1] \<and>
           getTechDocsMetadata resolvingApi exampleRef = Fulfilled ''site:docs''"
    by (simp add: resolvingApi_def exampleRef_def)
  from a metadataProvider_pending_then_resolved
    [of resolvingApi exampleRef "()" "noProviders :: (string, string, unit) contexts"
      "[Rerender otherRef]" otherRef]
  have 1: "inChildren
     (fst (TechDocsMetadataProvider resolvingApi otherRef ()
        (metadataProviderRun resolvingApi exampleRef [Rerender otherRef])))
     (noProviders :: (string, string, unit) contexts) useMetadata = Some None"
    by blast
  from b metadataProvider_pending_then_resolved
    [of resolvingApi exampleRef "()" "noProviders :: (string, string, unit) contexts"
      "[Rerender otherRef, Settle 1]" otherRef "''site:docs''"]
  have 2: "inChildren
     (fst (TechDocsMetadataProvider resolvingApi otherRef ()
        (metadataProviderRun resolvingApi exampleRef [Rerender otherRef, Settle 1])))
     (noProviders :: (string, string, unit) contexts) useMetadata = Some (Some ''site:docs'')"
    by blast
  from 1 2 show ?thesis by blast
qed

subsection \<open>The state machine of the fetch\<close>

lemma phaseOf_settled:
  "phaseOf (settled fn) = (case fn of Fulfilled v \<Rightarrow> Success | Rejected r \<Rightarrow> Failure)"
  by (cases fn) (simp_all add: phaseOf_def)

lemma mount_pending:
  "mountedWith fn False h \<Longrightarrow> phaseOf (state h) = Pending"
  by (simp add: mountedWith_def phaseOf_def)

lemma mounted_machine:
  assumes h: "mountedWith fn d h" and h': "mountedWith fn (d \<or> x) h'"
  shows "lastCallId h = 1 \<and> set (inFlight h) \<subseteq> {(1, fn)} \<and>
         (state h' = state h \<or>
          phaseOf (state h) = Pending \<and> state h' = settled fn \<and>
          phaseOf (state h') = (case fn of Fulfilled v \<Rightarrow> Success | Rejected r \<Rightarrow> Failure))"
proof -
  have 1: "lastCallId h = 1 \<and> set (inFlight h) \<subseteq> {(1, fn)}"
    using h by (simp add: mountedWith_def split: if_splits)
  have 2: "state h' = state h \<or>
          phaseOf (state h) = Pending \<and> state h' = settled fn \<and>
          phaseOf (state h') = (case fn of Fulfilled v \<Rightarrow> Success | Rejected r \<Rightarrow> Failure)"
  proof (cases d)
    case True
    with h h' show ?thesis
      by (simp add: mountedWith_def)
  next
    case False
    with h have "phaseOf (state h) = Pending"
      by (simp add: mountedWith_def phaseOf_def)
    with h h' False show ?thesis
      by (cases x) (simp_all add: mountedWith_def phaseOf_settled)
  qed
  from 1 2 show ?thesis by blast
qed

text \<open>
  Claim C4. For both providers, mounted with the reference \<open>e0\<close>: the phase at the mount
  is pending; after any sequence \<open>evs\<close> of renders (with whatever references) and
  settlements, exactly one call has been issued, and the only call that can be in flight
  is the fetch for \<open>e0\<close>; and any further event \<open>ev\<close> either leaves the state as it is,
  or takes it from pending to the state written for the outcome of that fetch, whose
  phase is success when it resolved and failure when it was rejected. So a state that
  is not pending never changes again, and pending is entered at the mount only.
\<close>

theorem provider_fetch_state_machine:
  "(phaseOf (state (metadataProviderMount api e0)) = Pending \<and>
    lastCallId (metadataProviderRun api e0 evs) = 1 \<and>
    set (inFlight (metadataProviderRun api e0 evs)) \<subseteq> {(1, getTechDocsMetadata api e0)} \<and>
    (state (metadataProviderStep api (metadataProviderRun api e0 evs) ev)
       = state (metadataProviderRun api e0 evs) \<or>
     phaseOf (state (metadataProviderRun api e0 evs)) = Pending \<and>
     state (metadataProviderStep api (metadataProviderRun api e0 evs) ev)
       = settled (getTechDocsMetadata api e0) \<and>
     phaseOf (state (metadataProviderStep api (metadataProviderRun api e0 evs) ev))
       = (case getTechDocsMetadata api e0 of Fulfilled v \<Rightarrow> Success | Rejected r \<Rightarrow> Failure))) \<and>
   (phaseOf (state (entityProviderMount api e0)) = Pending \<and>
    lastCallId (entityProviderRun api e0 evs) = 1 \<and>
    set (inFlight (entityProviderRun api e0 evs)) \<subseteq> {(1, getEntityMetadata api e0)} \<and>
    (state (entityProviderStep api (entityProviderRun api e0 evs) ev)
       = state (entityProviderRun api e0 evs) \<or>
     phaseOf (state (entityProviderRun api e0 evs)) = Pending \<and>
     state (entityProviderStep api (entityProviderRun api e0 evs) ev)
       = settled (getEntityMetadata api e0) \<and>
     phaseOf (state (entityProviderStep api (entityProviderRun api e0 evs) ev))
       = (case getEntityMetadata api e0 of Fulfilled v \<Rightarrow> Success | Rejected r \<Rightarrow> Failure)))"
proof -
  have m0: "phaseOf (state (metadataProviderMount api e0)) = Pending"
    using metadataProviderRun_mounted [of api e0 "[]"]
    by (simp add: metadataProviderRun_def mount_pending)
  have n0: "phaseOf (state (entityProviderMount api e0)) = Pending"
    using entityProviderRun_mounted [of api e0 "[]"]
    by (simp add: entityProviderRun_def mount_pending)
  note m = metadataProviderRun_mounted [of api e0 evs]
  note n = entityProviderRun_mounted [of api e0 evs]
  note ms = mounted_machine [OF m metadataProviderStep_mounted [OF m, of ev api]]
  note ns = mounted_machine [OF n entityProviderStep_mounted [OF n, of ev api]]
  from m0 n0 ms ns show ?thesis by blast
qed

text \<open>
  Two lives: a fetch that resolves, with a render for another reference and settlements
  delivered twice or for calls that were never made; and a fetch that is rejected.
\<close>

lemma provider_fetch_phases_example:
  "map (\<lambda>evs. phaseOf (state (metadataProviderRun resolvingApi exampleRef evs)))
     [[], [Rerender otherRef], [Rerender otherRef, Settle 1],
      [Rerender otherRef, Settle 1, Rerender exampleRef, Settle 1, Settle 2]]
   = [Pending, Pending, Success, Success] \<and>
   map (\<lambda>evs. phaseOf (state (entityProviderRun (rejectingApi JSNull) exampleRef evs)))
     [[], [Settle 2], [Settle 2, Settle 1], [Settle 2, Settle 1, Rerender otherRef]]
   = [Pending, Pending, Failure, Failure]"
  by (simp add: metadataProviderRun_def metadataProviderMount_def TechDocsMetadataProvider_def
      entityProviderRun_def entityProviderMount_def TechDocsEntityProvider_def
      useAsync_def initialAsyncHook_def callback_def settle_def resolvingApi_def rejectingApi_def
      phaseOf_def)

subsection \<open>The two fetching providers are one\<close>

lemma swap_steps:
  "entityProviderStep api h ev
     = metadataProviderStep (api\<lparr>getTechDocsMetadata := getEntityMetadata api\<rparr>) h ev"
  by (cases ev) (simp_all add: metadataProvider_hook entityProvider_hook)

text \<open>
  Claim C9. With both kinds of metadata of one type: \<^verbatim>\<open>TechDocsEntityProvider\<close> is
  \<^verbatim>\<open>TechDocsMetadataProvider\<close> with \<^verbatim>\<open>getEntityMetadata\<close> put for
  \<^verbatim>\<open>getTechDocsMetadata\<close> and the entity context for the metadata context, and the
  other way round; the hooks of the two providers go through the same states; and
  \<^verbatim>\<open>useEntityMetadata\<close> is \<^verbatim>\<open>useMetadata\<close> with the two contexts exchanged.
\<close>

theorem entityProvider_is_metadataProvider:
  "TechDocsEntityProvider api e c h
     = map_prod swapContext id
         (TechDocsMetadataProvider (api\<lparr>getTechDocsMetadata := getEntityMetadata api\<rparr>) e c h) \<and>
   TechDocsMetadataProvider api e c h
     = map_prod swapContext id
         (TechDocsEntityProvider (api\<lparr>getEntityMetadata := getTechDocsMetadata api\<rparr>) e c h) \<and>
   entityProviderRun api e evs
     = metadataProviderRun (api\<lparr>getTechDocsMetadata := getEntityMetadata api\<rparr>) e evs \<and>
   useEntityMetadata env
     = useMetadata (env\<lparr>TechDocsMetadataContext := TechDocsEntityContext env,
                         TechDocsEntityContext := TechDocsMetadataContext env\<rparr>)"
proof (intro conjI)
  show "TechDocsEntityProvider api e c h
     = map_prod swapContext id
         (TechDocsMetadataProvider (api\<lparr>getTechDocsMetadata := getEntityMetadata api\<rparr>) e c h)"
    by (simp add: TechDocsEntityProvider_def TechDocsMetadataProvider_def split: prod.splits)
  show "TechDocsMetadataProvider api e c h
     = map_prod swapContext id
         (TechDocsEntityProvider (api\<lparr>getEntityMetadata := getTechDocsMetadata api\<rparr>) e c h)"
    by (simp add: TechDocsEntityProvider_def TechDocsMetadataProvider_def split: prod.splits)
  have "entityProviderStep api
          = metadataProviderStep (api\<lparr>getTechDocsMetadata := getEntityMetadata api\<rparr>)"
    by (intro ext) (rule swap_steps)
  then show "entityProviderRun api e evs
     = metadataProviderRun (api\<lparr>getTechDocsMetadata := getEntityMetadata api\<rparr>) e evs"
    by (simp add: entityProviderRun_def metadataProviderRun_def entityProviderMount_def
        metadataProviderMount_def metadataProvider_hook entityProvider_hook)
  show "useEntityMetadata env
     = useMetadata (env\<lparr>TechDocsMetadataContext := TechDocsEntityContext env,
                         TechDocsEntityContext := TechDocsMetadataContext env\<rparr>)"
    by (simp add: useEntityMetadata_def useMetadata_def)
qed

subsection \<open>The reader page\<close>

lemma readerPageValue_eq:
  "readerPageValue e c cells env =
     Some \<lparr>entityName = e, shadowRoot = shadowRootState cells,
           setShadowRoot = (\<lambda>a s. s\<lparr>shadowRootState := applyAction a (shadowRootState s)\<rparr>),
           title = titleState cells,
           setTitle = (\<lambda>a s. s\<lparr>titleState := applyAction a (titleState s)\<rparr>),
           subtitle = subtitleState cells,
           setSubtitle = (\<lambda>a s. s\<lparr>subtitleState := applyAction a (subtitleState s)\<rparr>)\<rparr>"
  by (simp add: readerPageValue_def inChildren_def TechDocsReaderPageProvider_def
      useTechDocsReaderPage_def useContext_def)

text \<open>
  Claim C5. Where no \<^verbatim>\<open>TechDocsReaderPageProvider\<close> encloses the caller,
  \<^verbatim>\<open>useTechDocsReaderPage\<close> returns the default value: empty title, empty subtitle,
  no shadow root, and an entity reference of three empty strings.
\<close>

theorem useTechDocsReaderPage_outside_provider:
  "useTechDocsReaderPage (env\<lparr>TechDocsReaderPageContext := None\<rparr>) = defaultTechDocsReaderPageValue \<and>
   title (useTechDocsReaderPage (env\<lparr>TechDocsReaderPageContext := None\<rparr>)) = '''' \<and>
   subtitle (useTechDocsReaderPage (env\<lparr>TechDocsReaderPageContext := None\<rparr>)) = '''' \<and>
   shadowRoot (useTechDocsReaderPage (env\<lparr>TechDocsReaderPageContext := None\<rparr>)) = None \<and>
   entityName (useTechDocsReaderPage (env\<lparr>TechDocsReaderPageContext := None\<rparr>))
     = \<lparr>kind = '''', name = '''', namespace = ''''\<rparr>"
  by (simp add: useTechDocsReaderPage_def useContext_def defaultTechDocsReaderPageValue_def)

text \<open>
  Claim C8. A descendant reads the value \<open>v\<close> of a rendered provider and calls a setter
  of \<open>v\<close>; at the next render of the provider, with whatever reference and children,
  the value read has the title set: \<^verbatim>\<open>"X"\<close> after \<^verbatim>\<open>setTitle("X")\<close>, and likewise any
  string \<open>x\<close>, any subtitle \<open>y\<close> and any shadow root handle \<open>r\<close>, undefined included.
\<close>

theorem readerPage_setter_then_read:
  "\<exists>v. readerPageValue e c cells env = Some v \<and>
     map_option title (readerPageValue e' c' (setTitle v (NewState ''X'') cells) env) = Some ''X'' \<and>
     map_option title (readerPageValue e' c' (setTitle v (NewState x) cells) env) = Some x \<and>
     map_option subtitle (readerPageValue e' c' (setSubtitle v (NewState y) cells) env) = Some y \<and>
     map_option shadowRoot (readerPageValue e' c' (setShadowRoot v (NewState r) cells) env) = Some r"
  by (simp add: readerPageValue_eq)

lemma readerPageLife_ref:
  "fst (foldl (readerPageLifeStep c env) (e, cells) evs) = latestRef e evs"
proof (induction evs arbitrary: e cells)
  case Nil
  show ?case by simp
next
  case (Cons ev evs)
  show ?case
    by (cases ev) (simp_all add: Cons.IH)
qed

lemma readerPageRead_entityName:
  "\<exists>v. readerPageRead c env p = Some v \<and> entityName v = fst p"
  by (cases p) (simp add: readerPageValue_eq)

text \<open>
  Claim C10, as amended. For every state of the cells and every argument (a new state
  or an updater), the value read after \<^verbatim>\<open>setTitle\<close> has the subtitle, shadow root and
  entity reference it had before; after \<^verbatim>\<open>setSubtitle\<close> the title, shadow root and
  entity reference; after \<^verbatim>\<open>setShadowRoot\<close> the title, subtitle and entity reference;
  so after any sequence of setter calls, the provider being rendered with the same
  reference, the entity reference read is unchanged. Over the life of a mounted
  provider, renders by the parent included, the entity reference read is the reference
  of the latest render: a call of a setter leaves it as it is, and a render with another
  reference replaces it.
\<close>

theorem readerPage_setters_frame:
  "\<exists>v. readerPageValue e c cells env = Some v \<and>
     (\<exists>v'. readerPageValue e c (setTitle v a cells) env = Some v' \<and>
        subtitle v' = subtitle v \<and> shadowRoot v' = shadowRoot v \<and> entityName v' = entityName v) \<and>
     (\<exists>v'. readerPageValue e c (setSubtitle v b cells) env = Some v' \<and>
        title v' = title v \<and> shadowRoot v' = shadowRoot v \<and> entityName v' = entityName v) \<and>
     (\<exists>v'. readerPageValue e c (setShadowRoot v r cells) env = Some v' \<and>
        title v' = title v \<and> subtitle v' = subtitle v \<and> entityName v' = entityName v) \<and>
     (\<exists>v'. readerPageValue e c (foldl (readerPageStep e c env) cells ops) env = Some v' \<and>
        entityName v' = entityName v \<and> entityName v' = e) \<and>
     (\<exists>v'. readerPageRead c env (readerPageLifeStep c env (e, cells) (Call op)) = Some v' \<and>
        entityName v' = entityName v) \<and>
     (\<exists>v'. readerPageRead c env (readerPageLifeStep c env (e, cells) (RenderWith e')) = Some v' \<and>
        entityName v' = e' \<and> title v' = title v \<and> subtitle v' = subtitle v \<and>
        shadowRoot v' = shadowRoot v) \<and>
     (\<exists>v'. readerPageRead c env (foldl (readerPageLifeStep c env) (e, cells) evs) = Some v' \<and>
        entityName v' = latestRef e evs)"
proof -
  from readerPageRead_entityName [of c env "foldl (readerPageLifeStep c env) (e, cells) evs"]
  have "\<exists>v'. readerPageRead c env (foldl (readerPageLifeStep c env) (e, cells) evs) = Some v' \<and>
        entityName v' = latestRef e evs"
    by (simp add: readerPageLife_ref)
  then show ?thesis
    by (simp add: readerPageValue_eq)
qed

text \<open>
  Claim C10 as the spec states it, with the entity reference never changed for the
  provider's lifetime, fails: a provider mounted with \<open>exampleRef\<close>, whose title a
  descendant has set, is rendered by its parent with \<open>otherRef\<close>; it keeps its cells,
  being the same mounted provider, and its descendants now read \<open>otherRef\<close>.
\<close>

theorem readerPage_entityName_changes_on_rerender:
  "map_option (\<lambda>v. (entityName v, title v))
     (readerPageRead () (noProviders :: (unit, unit, nat) contexts)
        (readerPageLife () (noProviders :: (unit, unit, nat) contexts) exampleRef
           [Call (SetTitle (NewState ''Docs''))]))
   = Some (exampleRef, ''Docs'') \<and>
   map_option (\<lambda>v. (entityName v, title v))
     (readerPageRead () (noProviders :: (unit, unit, nat) contexts)
        (readerPageLife () (noProviders :: (unit, unit, nat) contexts) exampleRef
           [Call (SetTitle (NewState ''Docs'')), RenderWith otherRef]))
   = Some (otherRef, ''Docs'') \<and>
   otherRef \<noteq> exampleRef"
  by (simp add: readerPageLife_def readerPageValue_eq readerPageStep_def
      initialReaderPageState_def defaultTechDocsReaderPageValue_def exampleRef_def otherRef_def)

text \<open>
  A freshly mounted provider, then three setter calls. The entity reference itself is a
  prop: a parent that renders the provider with another reference changes what the
  descendants read.
\<close>

lemma readerPage_example:
  "map_option (\<lambda>v. (title v, subtitle v, entityName v = exampleRef))
     (readerPageValue exampleRef ()
        (foldl (readerPageStep exampleRef () (noProviders :: (unit, unit, nat) contexts))
           initialReaderPageState
           [SetTitle (NewState ''Docs''), SetSubtitle (NewState ''v1''),
            SetTitle (Updater (\<lambda>t. t @ ''!''))])
        (noProviders :: (unit, unit, nat) contexts))
   = Some (''Docs!'', ''v1'', True) \<and>
   map_option entityName
     (readerPageValue otherRef () (initialReaderPageState :: nat ReaderPageState)
        (noProviders :: (unit, unit, nat) contexts))
   = Some otherRef"
  by (simp add: readerPageValue_eq readerPageStep_def initialReaderPageState_def
      defaultTechDocsReaderPageValue_def)

subsection \<open>Elements of the shadow root\<close>

lemma array_map_Inr:
  "\<forall>x \<in> set xs. f x = Inr (g x) \<Longrightarrow> array_map f xs = Inr (map g xs)"
  by (induction xs) auto

lemma concat_filter_nonempty: "concat (filter (\<lambda>nl. nl \<noteq> []) nls) = concat nls"
  by (induction nls) auto

text \<open>
  Claim C3. With a shadow root present, and for every list of selectors the root
  answers (selector \<open>s\<close> with the elements \<open>matches s\<close>, in document order),
  \<^verbatim>\<open>useShadowRootElements\<close> returns the lists of matches concatenated in the order of
  the selectors; selectors without a match contribute nothing; and nothing is merged:
  the result has as many elements as the selectors have matches, counted with
  repetition.
\<close>

theorem useShadowRootElements_concat:
  assumes "useShadowRoot env = Some root"
    and "\<forall>selector \<in> set selectors. querySelectorAll root selector = Inr (matches selector)"
  shows "useShadowRootElements selectors env = Inr (concat (map matches selectors)) \<and>
         useShadowRootElements selectors env
           = Inr (concat (map matches (filter (\<lambda>selector. matches selector \<noteq> []) selectors))) \<and>
         (\<exists>elements. useShadowRootElements selectors env = Inr elements \<and>
            length elements = sum_list (map (\<lambda>selector. length (matches selector)) selectors))"
proof -
  have m: "array_map (\<lambda>selector. querySelectorAll root selector) selectors
             = Inr (map matches selectors)"
    using assms(2) by (rule array_map_Inr)
  have r: "useShadowRootElements selectors env = Inr (concat (map matches selectors))"
    using assms(1) by (simp add: useShadowRootElements_def m concat_filter_nonempty)
  have f: "concat (map matches (filter (\<lambda>selector. matches selector \<noteq> []) selectors))
             = concat (map matches selectors)"
    by (induction selectors) auto
  have l: "length (concat (map matches selectors))
             = sum_list (map (\<lambda>selector. length (matches selector)) selectors)"
    by (simp add: length_concat comp_def)
  from r f l show ?thesis by simp
qed

text \<open>
  The selectors \<^verbatim>\<open>["a", "b"]\<close>, of which \<^verbatim>\<open>a\<close> matches two elements and \<^verbatim>\<open>b\<close>
  none, give the two elements of \<^verbatim>\<open>a\<close>; a selector that is repeated, or overlaps
  another, repeats its elements.
\<close>

theorem useShadowRootElements_concat_witness:
  "useShadowRootElements [''a'', ''b''] exampleContexts = Inr [1, 2] \<and>
   useShadowRootElements [''*'', ''b'', ''a'', ''a''] exampleContexts
     = Inr [0, 1, 2, 3, 1, 2, 1, 2]"
proof -
  have r: "useShadowRoot exampleContexts = Some exampleRoot"
    by (simp add: exampleContexts_def useShadowRoot_def useTechDocsReaderPage_def useContext_def)
  have a: "\<forall>selector \<in> set [''a'', ''b'']. querySelectorAll exampleRoot selector
             = Inr (exampleMatches selector)"
    by (simp add: exampleRoot_def exampleMatches_def)
  have b: "\<forall>selector \<in> set [''*'', ''b'', ''a'', ''a'']. querySelectorAll exampleRoot selector
             = Inr (exampleMatches selector)"
    by (simp add: exampleRoot_def exampleMatches_def)
  from useShadowRootElements_concat [OF r a]
  have 1: "useShadowRootElements [''a'', ''b''] exampleContexts = Inr [1, 2]"
    by (simp add: exampleMatches_def)
  from useShadowRootElements_concat [OF r b]
  have 2: "useShadowRootElements [''*'', ''b'', ''a'', ''a''] exampleContexts
             = Inr [0, 1, 2, 3, 1, 2, 1, 2]"
    by (simp add: exampleMatches_def)
  from 1 2 show ?thesis by blast
qed

text \<open>A string the root rejects as a selector ends the hook with the root's exception.\<close>

lemma useShadowRootElements_invalid_selector:
  "useShadowRootElements [''a'', ''!!'', ''b''] exampleContexts = Inl SyntaxError"
  by (simp add: exampleContexts_def useShadowRootElements_def useShadowRoot_def
      useTechDocsReaderPage_def useContext_def exampleRoot_def)

text \<open>
  Claim C6. Where the shadow root read from the reader page is undefined,
  \<^verbatim>\<open>useShadowRootElements\<close> returns the empty sequence for every list of selectors;
  the root is never queried, so the strings need not even be selectors.
\<close>

theorem useShadowRootElements_no_shadow_root:
  "useShadowRoot env = None \<Longrightarrow> useShadowRootElements selectors env = Inr []"
  by (simp add: useShadowRootElements_def)

text \<open>Outside any provider, and inside a provider whose shadow root has not been set.\<close>

theorem useShadowRootElements_no_shadow_root_witness:
  "useShadowRoot (noProviders :: (unit, unit, nat) contexts) = None \<and>
   useShadowRootElements [''a'', ''!!''] (noProviders :: (unit, unit, nat) contexts) = Inr [] \<and>
   inChildren (TechDocsReaderPageProvider exampleRef () initialReaderPageState)
     (noProviders :: (unit, unit, nat) contexts) (useShadowRootElements [''a'', ''!!''])
     = Some (Inr [])"
proof -
  let ?inside = "(noProviders :: (unit, unit, nat) contexts)
     \<lparr>TechDocsReaderPageContext :=
        readerPageValue exampleRef () initialReaderPageState
          (noProviders :: (unit, unit, nat) contexts)\<rparr>"
  have n: "useShadowRoot (noProviders :: (unit, unit, nat) contexts) = None"
    by (simp add: useShadowRoot_def useTechDocsReaderPage_def useContext_def noProviders_def
        defaultTechDocsReaderPageValue_def)
  have i: "useShadowRoot ?inside = None"
    by (simp add: readerPageValue_eq useShadowRoot_def useTechDocsReaderPage_def useContext_def
        initialReaderPageState_def defaultTechDocsReaderPageValue_def)
  have c: "inChildren (TechDocsReaderPageProvider exampleRef () initialReaderPageState)
             (noProviders :: (unit, unit, nat) contexts) (useShadowRootElements [''a'', ''!!''])
           = Some (useShadowRootElements [''a'', ''!!''] ?inside)"
    by (simp add: inChildren_def TechDocsReaderPageProvider_def readerPageValue_eq)
  from n useShadowRootElements_no_shadow_root [OF n, of "[''a'', ''!!'']"]
    c useShadowRootElements_no_shadow_root [OF i, of "[''a'', ''!!'']"]
  show ?thesis by simp
qed

text \<open>
  Claim C7. For the empty list of selectors \<^verbatim>\<open>useShadowRootElements\<close> returns the
  empty sequence, with a shadow root and without one.
\<close>

theorem useShadowRootElements_no_selectors:
  "useShadowRootElements [] env = Inr []"
  by (simp add: useShadowRootElements_def split: option.splits)

end
